theory Spec2Isabelle
  imports Main
begin

section \<open>The application catalog of \<^verbatim>\<open>src/lib/data.ts\<close>\<close>

subsection \<open>Data model\<close>

text \<open>
  The element type \<^verbatim>\<open>App\<close> is imported from \<^verbatim>\<open>@/types/components/app\<close>; the records
  below follow the shape of the object literals in \<^verbatim>\<open>data.ts\<close>, field by field and in the
  order the literals write them. A field that a literal leaves out (\<^verbatim>\<open>envVars\<close>) is
  \<open>None\<close>. Strings are character lists; \<^verbatim>\<open>stars\<close> only ever holds the literal
  \<^verbatim>\<open>1000\<close>.
\<close>

record EnvVarSpec =
  name :: string
  label :: string
  description :: string

record IconUrl =
  light :: string
  dark :: string

record Icon =
  type :: string
  url :: IconUrl

record App =
  name :: string
  description :: string
  stars :: nat
  icon :: Icon
  category :: string
  price :: string
  developer :: string
  envVars :: "EnvVarSpec list option"

subsection \<open>The catalog literal\<close>

text \<open>
  \<^verbatim>\<open>export const apps: App[] = [ ... ] as const;\<close>, one definition per array element,
  in the order of the source.
\<close>

definition browser :: App where
  "browser =
    \<lparr>name = ''Browser'',
     description = ''Web browser'',
     stars = 1000,
     icon = \<lparr>type = ''url'',
       url = \<lparr>light = ''/servers/browser.svg'', dark = ''/servers/browser.svg''\<rparr>\<rparr>,
     category = ''Utilities'',
     price = ''Get'',
     developer = ''Google LLC'',
     envVars = None\<rparr>"

definition hacker_news :: App where
  "hacker_news =
    \<lparr>name = ''Hacker News'',
     description = ''Hacker News'',
     stars = 1000,
     icon = \<lparr>type = ''url'',
       url = \<lparr>light = ''/servers/yc.svg'', dark = ''/servers/yc.svg''\<rparr>\<rparr>,
     category = ''Social'',
     price = ''Get'',
     developer = ''Y Combinator'',
     envVars = None\<rparr>"

definition june :: App where
  "june =
    \<lparr>name = ''June'',
     description = ''June'',
     stars = 1000,
     icon = \<lparr>type = ''url'',
       url = \<lparr>light = ''/servers/june.svg'', dark = ''/servers/june.svg''\<rparr>\<rparr>,
     category = ''Analytics'',
     price = ''Get'',
     developer = ''June'',
     envVars = Some
       [\<lparr>EnvVarSpec.name = ''JUNE_API_URL'',
         label = ''June API URL'',
         description = ''June API URL''\<rparr>,
        \<lparr>EnvVarSpec.name = ''JUNE_API_KEY'',
         label = ''June API Key'',
         description = ''June API Key''\<rparr>]\<rparr>"

definition linear :: App where
  "linear =
    \<lparr>name = ''Linear'',
     description = ''Linear'',
     stars = 1000,
     icon = \<lparr>type = ''url'',
       url = \<lparr>light = ''/servers/linear-dark.svg'', dark = ''/servers/linear-light.svg''\<rparr>\<rparr>,
     category = ''Productivity'',
     price = ''Get'',
     developer = ''Linear'',
     envVars = Some
       [\<lparr>EnvVarSpec.name = ''LINEAR_API_KEY'',
         label = ''Linear API Key'',
         description = ''Your Linear API key for authentication''\<rparr>]\<rparr>"

definition gmail :: App where
  "gmail =
    \<lparr>name = ''Gmail'',
     description = ''Email and messaging platform'',
     stars = 1000,
     icon = \<lparr>type = ''url'',
       url = \<lparr>light = ''/servers/gmail.svg'', dark = ''/servers/gmail.svg''\<rparr>\<rparr>,
     category = ''Productivity'',
     price = ''Free'',
     developer = ''Google LLC'',
     envVars = None\<rparr>"

definition google_calendar :: App where
  "google_calendar =
    \<lparr>name = ''Google Calendar'',
     description = ''Schedule and organize events'',
     stars = 1000,
     icon = \<lparr>type = ''url'',
       url = \<lparr>light = ''/servers/gcal.svg'', dark = ''/servers/gcal.svg''\<rparr>\<rparr>,
     category = ''Productivity'',
     price = ''Free'',
     developer = ''Google LLC'',
     envVars = None\<rparr>"

definition apps :: "App list" where
  "apps = [browser, hacker_news, june, linear, gmail, google_calendar]"

lemmas entry_defs =
  browser_def hacker_news_def june_def linear_def gmail_def google_calendar_def

subsection \<open>Errors\<close>

text \<open>The two error conditions the specification names (section 7).\<close>

datatype error = MalformedCatalog | NotFound

subsection \<open>Loading the module\<close>

text \<open>
  The module consists of the single statement
  \<^verbatim>\<open>export const apps: App[] = [ ... ] as const;\<close>. Loading it evaluates the array
  literal and binds the result to \<^verbatim>\<open>apps\<close>: no function is applied to the literal, no
  field is inspected and no \<^verbatim>\<open>throw\<close> occurs anywhere in the file. \<open>loadModule lit\<close>
  is the outcome of loading the module when its array literal is \<open>lit\<close>: always the
  success branch, holding the literal as written.
\<close>

definition loadModule :: "App list \<Rightarrow> error + App list" where
  "loadModule lit = Inr lit"

subsection \<open>Catalog operations\<close>

type_synonym Catalog = "App list"

text \<open>
  Modelled from the spec: \<^verbatim>\<open>listAll\<close> is not defined in \<^verbatim>\<open>data.ts\<close> (the file exports
  the array only). Section 4.1: "\<^verbatim>\<open>listAll()\<close> produces the ordered sequence of
  AppDescriptors exactly in declaration order".
\<close>

definition listAll :: "Catalog \<Rightarrow> App list" where
  "listAll c = c"




text \<open>
  Modelled from the spec: \<^verbatim>\<open>findByName\<close> is not defined in \<^verbatim>\<open>data.ts\<close>. Section 4.1:
  "\<^verbatim>\<open>findByName(name)\<close> returns the unique AppDescriptor whose \<^verbatim>\<open>name\<close> matches, or
  signals a NotFound condition; must not silently return the first of several matches".
  All matches are collected; exactly one match is returned, no match is \<open>NotFound\<close>, and
  several matches, a violation of the uniqueness invariant of section 3 that section 7
  names \<open>MalformedCatalog\<close>, are reported as such instead of picking the first.
\<close>

definition findByName :: "Catalog \<Rightarrow> string \<Rightarrow> error + App" where
  "findByName c n =
    (case filter (\<lambda>a. name a = n) c of
       [] \<Rightarrow> Inl NotFound
     | [a] \<Rightarrow> Inr a
     | _ # _ # _ \<Rightarrow> Inl MalformedCatalog)"

text \<open>
  Modelled from the spec: \<^verbatim>\<open>requiredEnvVars\<close> is not defined in \<^verbatim>\<open>data.ts\<close>. Section
  4.1: "\<^verbatim>\<open>requiredEnvVars(name)\<close> returns the ordered sequence of EnvVarSpec for that
  app, or an empty sequence if the app declares none; signals NotFound if the app does not
  exist".
\<close>

definition requiredEnvVars :: "Catalog \<Rightarrow> string \<Rightarrow> error + EnvVarSpec list" where
  "requiredEnvVars c n =
    (case findByName c n of
       Inl e \<Rightarrow> Inl e
     | Inr a \<Rightarrow> (case envVars a of None \<Rightarrow> Inr [] | Some evs \<Rightarrow> Inr evs))"

text \<open>
  Modelled from the spec: \<^verbatim>\<open>data.ts\<close> contains no validation code. Section 4.1, the
  validation contract: "reject (fail fast) a catalog where any \<^verbatim>\<open>name\<close> is empty or
  duplicated, where any \<^verbatim>\<open>EnvVarSpec.name\<close> is empty or duplicated within its owning app,
  or where \<^verbatim>\<open>icon.url.light\<close>/\<^verbatim>\<open>icon.url.dark\<close> are empty strings". \<open>catalogValid\<close>
  holds of a literal that passes all of these checks.
\<close>

definition envVarsValid :: "App \<Rightarrow> bool" where
  "envVarsValid a =
    (case envVars a of
       None \<Rightarrow> True
     | Some evs \<Rightarrow> list_all (\<lambda>e. EnvVarSpec.name e \<noteq> []) evs
         \<and> distinct (map EnvVarSpec.name evs))"

definition iconValid :: "App \<Rightarrow> bool" where
  "iconValid a = (light (url (icon a)) \<noteq> [] \<and> dark (url (icon a)) \<noteq> [])"

definition catalogValid :: "App list \<Rightarrow> bool" where
  "catalogValid xs =
    (list_all (\<lambda>a. name a \<noteq> []) xs \<and> distinct (map name xs)
     \<and> list_all envVarsValid xs \<and> list_all iconValid xs)"

subsection \<open>A literal with a repeated name\<close>

text \<open>The shipped array with a second copy of the \<^verbatim>\<open>Gmail\<close> element appended.\<close>

definition twoGmail :: "App list" where
  "twoGmail = apps @ [gmail]"

section \<open>Facts about the literal\<close>

lemma apps_names:
  "map name apps =
    [''Browser'', ''Hacker News'', ''June'', ''Linear'', ''Gmail'', ''Google Calendar'']"
  by (simp add: apps_def entry_defs)

lemma apps_names_distinct: "distinct (map name apps)"
  unfolding apps_names by simp



lemma apps_set: "set apps = {browser, hacker_news, june, linear, gmail, google_calendar}"
  by (simp add: apps_def)

section \<open>Lookup by name\<close>

lemma findByName_unique:
  assumes "distinct (map name c)" and "e \<in> set c"
  shows "findByName c (name e) = Inr e"
proof -
  have "filter (\<lambda>a. name a = name e) c = [e]"
    using assms
  proof (induction c)
    case Nil
    then show ?case by simp
  next
    case (Cons x xs)
    show ?case
    proof (cases "x = e")
      case True
      with Cons.prems have "name e \<notin> name ` set xs" by simp
      then have "\<forall>a\<in>set xs. name a \<noteq> name e" by (metis imageI)
      then have "filter (\<lambda>a. name a = name e) xs = []" by (simp add: filter_empty_conv)
      with True show ?thesis by simp
    next
      case False
      with Cons.prems have "e \<in> set xs" and "name x \<noteq> name e" by auto
      with Cons show ?thesis by simp
    qed
  qed
  then show ?thesis by (simp add: findByName_def)
qed

lemma findByName_absent:
  assumes "n \<notin> name ` set c"
  shows "findByName c n = Inl NotFound"
proof -
  from assms have "filter (\<lambda>a. name a = n) c = []"
    by (auto simp: filter_empty_conv)
  then show ?thesis by (simp add: findByName_def)
qed

lemma findByName_browser: "findByName apps ''Browser'' = Inr browser"
  by (simp add: findByName_def apps_def entry_defs)

lemma findByName_june: "findByName apps ''June'' = Inr june"
  by (simp add: findByName_def apps_def entry_defs)

lemma findByName_linear: "findByName apps ''Linear'' = Inr linear"
  by (simp add: findByName_def apps_def entry_defs)

section \<open>Runs of accesses\<close>


section \<open>The claims\<close>

text \<open>
  C1. Any two entries at different positions of \<open>apps\<close> have different \<open>name\<close> fields:
  \<open>name\<close> is a key of the catalog.
\<close>

theorem C1_names_unique:
  "i < length apps \<Longrightarrow> j < length apps \<Longrightarrow> i \<noteq> j \<Longrightarrow> name (apps ! i) \<noteq> name (apps ! j)"
  using apps_names_distinct by (simp add: distinct_conv_nth)

theorem C1_names_unique_witness:
  "name (apps ! 0) = ''Browser'' \<and> name (apps ! 4) = ''Gmail''
    \<and> name (apps ! 0) \<noteq> name (apps ! 4)"
  using C1_names_unique [of 0 4] by (simp add: apps_def entry_defs)

text \<open>
  C2. For every entry \<open>e\<close> that \<open>listAll\<close> returns over the catalog, \<open>findByName\<close> on
  \<open>name e\<close> succeeds and returns \<open>e\<close> itself.
\<close>

theorem C2_findByName_listAll:
  "\<forall>e \<in> set (listAll apps). findByName apps (name e) = Inr e"
  using findByName_unique [OF apps_names_distinct] by (simp add: listAll_def)

theorem C2_findByName_listAll_witness:
  "gmail \<in> set (listAll apps) \<and> findByName apps ''Gmail'' = Inr gmail"
proof -
  have m: "gmail \<in> set (listAll apps)" by (simp add: listAll_def apps_def)
  have n: "name gmail = ''Gmail''" by (simp add: gmail_def)
  from C2_findByName_listAll m have "findByName apps (name gmail) = Inr gmail" by blast
  with m n show ?thesis by simp
qed

text \<open>
  C3, as the specification states it: loading a catalog with two entries named
  \<^verbatim>\<open>Gmail\<close> fails with \<open>MalformedCatalog\<close>. The module performs no check: \<open>twoGmail\<close>
  holds two entries named \<^verbatim>\<open>Gmail\<close> and loads as written.
\<close>

theorem C3_load_twoGmail_succeeds:
  "length (filter (\<lambda>a. name a = ''Gmail'') twoGmail) = 2
    \<and> loadModule twoGmail = Inr twoGmail
    \<and> loadModule twoGmail \<noteq> Inl MalformedCatalog"
  by (simp add: loadModule_def twoGmail_def apps_def entry_defs)

text \<open>
  C3, amended. Loading the module performs no validation: it never fails and yields the
  literal as written. The shipped literal passes every check of the validation contract of
  section 4.1; the literal \<open>twoGmail\<close> does not.
\<close>

theorem C3_unvalidated_load:
  "loadModule lit = Inr lit \<and> catalogValid apps \<and> \<not> catalogValid twoGmail"
proof -
  have v: "catalogValid apps"
    unfolding catalogValid_def apps_names
    by (simp add: apps_def entry_defs envVarsValid_def iconValid_def)
  have "\<not> distinct (map name twoGmail)"
    by (simp add: twoGmail_def apps_names) (simp add: gmail_def)
  then have "\<not> catalogValid twoGmail" by (simp add: catalogValid_def)
  with v show ?thesis by (simp add: loadModule_def)
qed

text \<open>
  C4. \<open>requiredEnvVars\<close> returns the empty sequence for \<^verbatim>\<open>Browser\<close>, exactly one
  specification named \<^verbatim>\<open>LINEAR_API_KEY\<close> for \<^verbatim>\<open>Linear\<close>, and exactly two, named
  \<^verbatim>\<open>JUNE_API_URL\<close> then \<^verbatim>\<open>JUNE_API_KEY\<close>, for \<^verbatim>\<open>June\<close>.
\<close>

theorem C4_requiredEnvVars:
  "requiredEnvVars apps ''Browser'' = Inr []
   \<and> map_sum id (map EnvVarSpec.name) (requiredEnvVars apps ''Linear'')
       = Inr [''LINEAR_API_KEY'']
   \<and> map_sum id (map EnvVarSpec.name) (requiredEnvVars apps ''June'')
       = Inr [''JUNE_API_URL'', ''JUNE_API_KEY'']"
  by (simp add: requiredEnvVars_def findByName_browser findByName_june findByName_linear)
     (simp add: entry_defs)

text \<open>
  C5. For a name that no entry of the catalog carries, \<open>findByName\<close> and
  \<open>requiredEnvVars\<close> both signal \<open>NotFound\<close>.
\<close>

theorem C5_not_found:
  "n \<notin> set (map name apps) \<Longrightarrow>
    findByName apps n = Inl NotFound \<and> requiredEnvVars apps n = Inl NotFound"
  using findByName_absent [of n apps] by (simp add: requiredEnvVars_def)

theorem C5_not_found_witness:
  "''__nonexistent__'' \<notin> set (map name apps)
    \<and> findByName apps ''__nonexistent__'' = Inl NotFound
    \<and> requiredEnvVars apps ''__nonexistent__'' = Inl NotFound"
proof -
  have h: "''__nonexistent__'' \<notin> set (map name apps)"
    unfolding apps_names by simp
  from C5_not_found [OF h] h show ?thesis by simp
qed

text \<open>
  C6. In every entry of the catalog the fields \<open>name\<close>, \<open>description\<close>, \<open>developer\<close>,
  \<open>category\<close> and \<open>price\<close> are non-empty strings.
\<close>

theorem C6_fields_nonempty:
  "\<forall>a \<in> set apps.
     name a \<noteq> [] \<and> description a \<noteq> [] \<and> developer a \<noteq> []
     \<and> category a \<noteq> [] \<and> price a \<noteq> []"
  unfolding apps_set by (simp add: entry_defs)

theorem C6_fields_nonempty_witness:
  "hacker_news \<in> set apps
    \<and> name hacker_news \<noteq> [] \<and> description hacker_news \<noteq> [] \<and> developer hacker_news \<noteq> []
    \<and> category hacker_news \<noteq> [] \<and> price hacker_news \<noteq> []"
proof -
  have m: "hacker_news \<in> set apps" by (simp add: apps_def)
  from C6_fields_nonempty m show ?thesis by blast
qed

text \<open>
  C7. In every entry of the catalog that has an \<open>envVars\<close> field, the sequence is
  non-empty and no two of its specifications share a \<open>name\<close>.
\<close>

theorem C7_envVars_nonempty_distinct:
  "\<forall>a \<in> set apps. \<forall>evs. envVars a = Some evs \<longrightarrow>
     evs \<noteq> [] \<and> distinct (map EnvVarSpec.name evs)"
  unfolding apps_set by (simp add: entry_defs)

theorem C7_envVars_nonempty_distinct_witness:
  "june \<in> set apps
    \<and> map EnvVarSpec.name (the (envVars june)) = [''JUNE_API_URL'', ''JUNE_API_KEY'']
    \<and> the (envVars june) \<noteq> []
    \<and> distinct (map EnvVarSpec.name (the (envVars june)))"
proof -
  have m: "june \<in> set apps" by (simp add: apps_def)
  have e: "envVars june = Some (the (envVars june))" by (simp add: june_def)
  have n: "map EnvVarSpec.name (the (envVars june)) = [''JUNE_API_URL'', ''JUNE_API_KEY'']"
    by (simp add: june_def)
  from C7_envVars_nonempty_distinct m e
  have "the (envVars june) \<noteq> [] \<and> distinct (map EnvVarSpec.name (the (envVars june)))"
    by blast
  with m n show ?thesis by simp
qed




text \<open>
  C9. The catalog has exactly six entries, named \<^verbatim>\<open>Browser\<close>, \<^verbatim>\<open>Hacker News\<close>,
  \<^verbatim>\<open>June\<close>, \<^verbatim>\<open>Linear\<close>, \<^verbatim>\<open>Gmail\<close>, \<^verbatim>\<open>Google Calendar\<close> in this order; the entries
  with an \<open>envVars\<close> field are exactly \<^verbatim>\<open>June\<close> and \<^verbatim>\<open>Linear\<close>, and the other four have
  none.
\<close>

theorem C9_catalog_contents:
  "length apps = 6
    \<and> map name apps =
        [''Browser'', ''Hacker News'', ''June'', ''Linear'', ''Gmail'', ''Google Calendar'']
    \<and> map name (filter (\<lambda>a. envVars a \<noteq> None) apps) = [''June'', ''Linear'']
    \<and> map name (filter (\<lambda>a. envVars a = None) apps) =
        [''Browser'', ''Hacker News'', ''Gmail'', ''Google Calendar'']"
  by (simp add: apps_def entry_defs)

text \<open>
  C10. Every entry's icon has \<open>type\<close> equal to \<^verbatim>\<open>url\<close> and non-empty \<open>light\<close> and
  \<open>dark\<close> paths; the two paths are equal in every entry but \<^verbatim>\<open>Linear\<close>, whose \<open>light\<close>
  path is \<^verbatim>\<open>/servers/linear-dark.svg\<close> and whose \<open>dark\<close> path is
  \<^verbatim>\<open>/servers/linear-light.svg\<close>.
\<close>

theorem C10_icons:
  "\<forall>a \<in> set apps.
     type (icon a) = ''url''
     \<and> light (url (icon a)) \<noteq> [] \<and> dark (url (icon a)) \<noteq> []
     \<and> (name a \<noteq> ''Linear'' \<longrightarrow> light (url (icon a)) = dark (url (icon a)))
     \<and> (name a = ''Linear'' \<longrightarrow>
          light (url (icon a)) = ''/servers/linear-dark.svg''
          \<and> dark (url (icon a)) = ''/servers/linear-light.svg'')"
  unfolding apps_set by (simp add: entry_defs)

theorem C10_icons_witness:
  "browser \<in> set apps \<and> linear \<in> set apps
    \<and> type (icon browser) = ''url''
    \<and> light (url (icon browser)) = dark (url (icon browser))
    \<and> type (icon linear) = ''url''
    \<and> light (url (icon linear)) = ''/servers/linear-dark.svg''
    \<and> dark (url (icon linear)) = ''/servers/linear-light.svg''"
proof -
  have m: "browser \<in> set apps" "linear \<in> set apps" by (simp_all add: apps_def)
  have n: "name browser \<noteq> ''Linear''" "name linear = ''Linear''"
    by (simp_all add: entry_defs)
  from C10_icons m(1) n(1)
  have b: "type (icon browser) = ''url'' \<and> light (url (icon browser)) = dark (url (icon browser))"
    by blast
  from C10_icons m(2) n(2)
  have l: "type (icon linear) = ''url''
      \<and> light (url (icon linear)) = ''/servers/linear-dark.svg''
      \<and> dark (url (icon linear)) = ''/servers/linear-light.svg''"
    by blast
  from m b l show ?thesis by simp
qed

end
